theory Spec2Isabelle
  imports Complex_Main "HOL-Library.AList" "HOL-Library.Multiset"
begin

section \<open>The EMA-cross universe selection algorithm\<close>

text \<open>
  The development follows \<^verbatim>\<open>Algorithm.Python/EmaCrossUniverseSelectionAlgorithm.py\<close>.
  Python floats are idealised as real numbers, a \<^verbatim>\<open>Symbol\<close> is represented by its string
  value and a time stamp by an integer. Every exception the Python can raise in the modelled
  code is a value of \<open>error\<close>.
\<close>

datatype error = UnboundLocalError | ZeroDivisionError | AttributeError

subsection \<open>The moving-average accumulator\<close>

text \<open>
  The class \<^verbatim>\<open>ExponentialMovingAverage\<close> belongs to the platform and is not part of the
  file. The functions of \<^verbatim>\<open>SymbolData\<close> therefore take the accumulator as parameters:
  \<open>mk\<close> builds one from its window, \<open>upd\<close> absorbs a sample and returns the readiness flag
  with the new accumulator, \<open>cur\<close> reads \<^verbatim>\<open>.current.value\<close>.
\<close>

record ema =
  period :: nat
  current_value :: real
  samples :: nat

text \<open>
  Modelled from the spec: the constructor of the exponential moving average accumulator,
  missing from the sources. The state is the window, the smoothed value and the count of
  samples absorbed; a fresh accumulator has absorbed nothing.
\<close>

definition ExponentialMovingAverage :: "nat \<Rightarrow> ema" where
  "ExponentialMovingAverage n = \<lparr>period = n, current_value = 0, samples = 0\<rparr>"

text \<open>
  Modelled from the spec: the update of the exponential moving average accumulator, missing
  from the sources. The smoothing constant is \<open>2 / (N + 1)\<close>; the first sample seeds the
  smoothed value, a later one gives \<open>\<alpha> * price + (1 - \<alpha>) * previous\<close>; the accumulator is
  ready once the count has reached the window \<open>N\<close>. The time stamp takes no part.
\<close>

definition ema_update :: "ema \<Rightarrow> int \<Rightarrow> real \<Rightarrow> bool \<times> ema" where
  "ema_update e time price =
     (let \<alpha> = 2 / (real (period e) + 1);
          v = (if samples e = 0 then price
               else \<alpha> * price + (1 - \<alpha>) * current_value e);
          e' = e\<lparr>current_value := v, samples := samples e + 1\<rparr>
      in (period e' \<le> samples e', e'))"

subsection \<open>SymbolData\<close>

text \<open>
  The attributes assigned by \<^verbatim>\<open>SymbolData.__init__\<close>. The first one is \<^verbatim>\<open>_symbol\<close> in the
  source; an identifier cannot start with an underscore here, hence \<open>priv_symbol\<close>.
\<close>

record 'a symbol_data =
  priv_symbol :: string
  tolerance :: real
  fast :: 'a
  slow :: 'a
  is_uptrend :: bool
  scale :: real

definition SymbolData :: "(nat \<Rightarrow> 'a) \<Rightarrow> string \<Rightarrow> 'a symbol_data" where
  "SymbolData mk symb =
     \<lparr>priv_symbol = symb, tolerance = 101 / 100, fast = mk 100, slow = mk 300,
      is_uptrend = False, scale = 0\<rparr>"

text \<open>
  The condition of the first \<^verbatim>\<open>if\<close> of \<^verbatim>\<open>update\<close>:
  \<^verbatim>\<open>self.fast.update(time, value) and self.slow.update(time, value)\<close>. Python's \<^verbatim>\<open>and\<close>
  evaluates its right operand only when the left one is true.
\<close>

definition feed_averages ::
  "('a \<Rightarrow> int \<Rightarrow> real \<Rightarrow> bool \<times> 'a) \<Rightarrow> 'a symbol_data \<Rightarrow> int \<Rightarrow> real \<Rightarrow> bool \<times> 'a symbol_data" where
  "feed_averages upd s time v =
     (case upd (fast s) time v of
        (False, f') \<Rightarrow> (False, s\<lparr>fast := f'\<rparr>)
      | (True, f') \<Rightarrow>
          (case upd (slow s) time v of (r, sl') \<Rightarrow> (r, s\<lparr>fast := f', slow := sl'\<rparr>)))"

text \<open>
  \<^verbatim>\<open>SymbolData.update\<close>. The locals \<^verbatim>\<open>fast\<close> and \<^verbatim>\<open>slow\<close> are bound only inside the first
  \<^verbatim>\<open>if\<close>: \<open>bound\<close> is \<open>None\<close> when that block was skipped, and reading them then raises
  \<^verbatim>\<open>UnboundLocalError\<close>. A float division by zero raises \<^verbatim>\<open>ZeroDivisionError\<close>. The object
  is mutated in place, so the state reached so far is returned with the error.
\<close>

definition update ::
  "('a \<Rightarrow> int \<Rightarrow> real \<Rightarrow> bool \<times> 'a) \<Rightarrow> ('a \<Rightarrow> real) \<Rightarrow> 'a symbol_data \<Rightarrow> int \<Rightarrow> real
     \<Rightarrow> error option \<times> 'a symbol_data" where
  "update upd cur s time v =
     (case feed_averages upd s time v of
        (ready, s1) \<Rightarrow>
          let bound = (if ready then Some (cur (fast s1), cur (slow s1)) else None);
              s2 = (case bound of
                      Some (f, sl) \<Rightarrow> s1\<lparr>is_uptrend := sl * tolerance s1 < f\<rparr>
                    | None \<Rightarrow> s1)
          in if is_uptrend s2 then
               (case bound of
                  None \<Rightarrow> (Some UnboundLocalError, s2)
                | Some (f, sl) \<Rightarrow>
                    if (f + sl) / 2 = 0 then (Some ZeroDivisionError, s2)
                    else (None, s2\<lparr>scale := (f - sl) / ((f + sl) / 2)\<rparr>))
             else (None, s2))"

text \<open>
  A caller feeding one instance a sequence of samples, as the loop of the selection function
  does over the days: the first exception ends the run.
\<close>

fun run ::
  "('a \<Rightarrow> int \<Rightarrow> real \<Rightarrow> bool \<times> 'a) \<Rightarrow> ('a \<Rightarrow> real) \<Rightarrow> 'a symbol_data \<Rightarrow> (int \<times> real) list
     \<Rightarrow> error option \<times> 'a symbol_data" where
  "run upd cur s [] = (None, s)"
| "run upd cur s ((time, v) # xs) =
     (case update upd cur s time v of
        (None, s') \<Rightarrow> run upd cur s' xs
      | (Some e, s') \<Rightarrow> (Some e, s'))"

subsection \<open>The selection function\<close>

record coarse_fundamental =
  cf_symbol :: string
  end_time :: int
  adjusted_price :: real

text \<open>
  The attributes of the algorithm that the selection function uses. \<open>averages\<close> is the
  dictionary from symbol to \<^verbatim>\<open>SymbolData\<close>; a Python dictionary iterates in insertion order,
  so it is an association list. \<open>logged\<close> collects the calls of \<^verbatim>\<open>self.log\<close>, each message
  kept as the symbol value and the scale it prints.
\<close>

record 'a algorithm =
  coarse_count :: nat
  averages :: "(string \<times> 'a symbol_data) list"
  logged :: "(string \<times> real) list"

text \<open>
  \<^verbatim>\<open>initialize\<close>, as far as it sets attributes of the algorithm itself; the dates, the cash
  and the universe settings are handed to the platform.
\<close>

definition initialize :: "'a algorithm" where
  "initialize = \<lparr>coarse_count = 10, averages = [], logged = []\<rparr>"

text \<open>
  The attribute read \<^verbatim>\<open>x.symbol\<close> of lines 63 and 66. \<^verbatim>\<open>SymbolData.__init__\<close> assigns
  \<^verbatim>\<open>_symbol\<close>, \<^verbatim>\<open>tolerance\<close>, \<^verbatim>\<open>fast\<close>, \<^verbatim>\<open>slow\<close>, \<^verbatim>\<open>is_uptrend\<close> and \<^verbatim>\<open>scale\<close>; neither
  the class nor \<^verbatim>\<open>object\<close> defines \<^verbatim>\<open>symbol\<close>, so the read raises \<^verbatim>\<open>AttributeError\<close> on
  every instance.
\<close>

definition symbol :: "'a symbol_data \<Rightarrow> error + string" where
  "symbol x = Inl AttributeError"

text \<open>
  \<^verbatim>\<open>values.sort(key=..., reverse=True)\<close>: the list is reversed, sorted by a stable ascending
  sort and reversed again, which is how the reverse flag keeps equal keys in their original
  order.
\<close>

definition sort_reverse :: "('b \<Rightarrow> real) \<Rightarrow> 'b list \<Rightarrow> 'b list" where
  "sort_reverse key xs = rev (sort_key key (rev xs))"

text \<open>The loop of lines 62 and 63; building the message reads \<^verbatim>\<open>x.symbol\<close> first.\<close>

fun log_selected ::
  "'a symbol_data list \<Rightarrow> (string \<times> real) list \<Rightarrow> error + (string \<times> real) list" where
  "log_selected [] lg = Inr lg"
| "log_selected (x # xs) lg =
     (case symbol x of
        Inl e \<Rightarrow> Inl e
      | Inr sv \<Rightarrow> log_selected xs (lg @ [(sv, scale x)]))"

text \<open>The list comprehension of line 66.\<close>

fun symbols_of :: "'a symbol_data list \<Rightarrow> error + string list" where
  "symbols_of [] = Inr []"
| "symbols_of (x # xs) =
     (case symbol x of
        Inl e \<Rightarrow> Inl e
      | Inr sv \<Rightarrow> (case symbols_of xs of Inl e \<Rightarrow> Inl e | Inr svs \<Rightarrow> Inr (sv # svs)))"

text \<open>
  The loop of lines 48 to 54. A symbol seen for the first time gets a fresh instance at the
  end of the dictionary; the instance is then updated in place, which keeps its position.
\<close>

fun update_averages ::
  "('a \<Rightarrow> int \<Rightarrow> real \<Rightarrow> bool \<times> 'a) \<Rightarrow> ('a \<Rightarrow> real) \<Rightarrow> (nat \<Rightarrow> 'a)
     \<Rightarrow> (string \<times> 'a symbol_data) list \<Rightarrow> coarse_fundamental list
     \<Rightarrow> error option \<times> (string \<times> 'a symbol_data) list" where
  "update_averages upd cur mk avs [] = (None, avs)"
| "update_averages upd cur mk avs (cf # cfs) =
     (let avg = (case map_of avs (cf_symbol cf) of
                   None \<Rightarrow> SymbolData mk (cf_symbol cf)
                 | Some a \<Rightarrow> a)
      in case update upd cur avg (end_time cf) (adjusted_price cf) of
           (None, avg') \<Rightarrow>
             update_averages upd cur mk (AList.update (cf_symbol cf) avg' avs) cfs
         | (Some e, avg') \<Rightarrow> (Some e, AList.update (cf_symbol cf) avg' avs))"

definition coarse_selection_function ::
  "('a \<Rightarrow> int \<Rightarrow> real \<Rightarrow> bool \<times> 'a) \<Rightarrow> ('a \<Rightarrow> real) \<Rightarrow> (nat \<Rightarrow> 'a)
     \<Rightarrow> 'a algorithm \<Rightarrow> coarse_fundamental list \<Rightarrow> (error + string list) \<times> 'a algorithm" where
  "coarse_selection_function upd cur mk alg coarse =
     (case update_averages upd cur mk (averages alg) coarse of
        (Some e, avs) \<Rightarrow> (Inl e, alg\<lparr>averages := avs\<rparr>)
      | (None, avs) \<Rightarrow>
          let alg1 = alg\<lparr>averages := avs\<rparr>;
              vals = sort_reverse scale (filter is_uptrend (map snd avs))
          in case log_selected (take (coarse_count alg1) vals) (logged alg1) of
               Inl e \<Rightarrow> (Inl e, alg1)
             | Inr lg \<Rightarrow>
                 (case symbols_of (take (coarse_count alg1) vals) of
                    Inl e \<Rightarrow> (Inl e, alg1\<lparr>logged := lg\<rparr>)
                  | Inr syms \<Rightarrow> (Inr syms, alg1\<lparr>logged := lg\<rparr>)))"

text \<open>
  The platform calls the selection function once per day with that day's batch; the state of
  the algorithm after a sequence of days.
\<close>

fun selection_days ::
  "('a \<Rightarrow> int \<Rightarrow> real \<Rightarrow> bool \<times> 'a) \<Rightarrow> ('a \<Rightarrow> real) \<Rightarrow> (nat \<Rightarrow> 'a)
     \<Rightarrow> 'a algorithm \<Rightarrow> coarse_fundamental list list \<Rightarrow> 'a algorithm" where
  "selection_days upd cur mk alg [] = alg"
| "selection_days upd cur mk alg (day # days) =
     selection_days upd cur mk (snd (coarse_selection_function upd cur mk alg day)) days"

subsection \<open>The universe-change handler\<close>

record security =
  sec_symbol :: string
  invested :: bool

record security_changes =
  added_securities :: "security list"
  removed_securities :: "security list"

text \<open>
  \<^verbatim>\<open>liquidate\<close> and \<^verbatim>\<open>set_holdings\<close> belong to the platform: the handler is modelled by the
  calls it makes, in order.
\<close>

datatype platform_call = Liquidate string | SetHoldings string real

fun liquidate_removed :: "security list \<Rightarrow> platform_call list \<Rightarrow> platform_call list" where
  "liquidate_removed [] calls = calls"
| "liquidate_removed (sec # secs) calls =
     liquidate_removed secs
       (if invested sec then calls @ [Liquidate (sec_symbol sec)] else calls)"

fun allocate_added :: "security list \<Rightarrow> platform_call list \<Rightarrow> platform_call list" where
  "allocate_added [] calls = calls"
| "allocate_added (sec # secs) calls =
     allocate_added secs (calls @ [SetHoldings (sec_symbol sec) (1 / 10)])"

definition on_securities_changed :: "security_changes \<Rightarrow> platform_call list" where
  "on_securities_changed changes =
     allocate_added (added_securities changes)
       (liquidate_removed (removed_securities changes) [])"

subsection \<open>Predicates and sample histories used in the statements\<close>

text \<open>
  Readiness is monotone: an accumulator that has reported ready reports ready on the next
  call, whatever the sample, and so on every later call.
\<close>

definition ready_monotone :: "('a \<Rightarrow> int \<Rightarrow> real \<Rightarrow> bool \<times> 'a) \<Rightarrow> bool" where
  "ready_monotone upd \<longleftrightarrow>
     (\<forall>a time v time' v'. fst (upd a time v) \<longrightarrow> fst (upd (snd (upd a time v)) time' v'))"

definition stays_ready :: "('a \<Rightarrow> int \<Rightarrow> real \<Rightarrow> bool \<times> 'a) \<Rightarrow> 'a \<Rightarrow> bool" where
  "stays_ready upd a \<longleftrightarrow> (\<forall>time v. fst (upd a time v))"

text \<open>The invariant behind the locals of \<^verbatim>\<open>update\<close>: an uptrend is only held by ready accumulators.\<close>

definition bound_inv :: "('a \<Rightarrow> int \<Rightarrow> real \<Rightarrow> bool \<times> 'a) \<Rightarrow> 'a symbol_data \<Rightarrow> bool" where
  "bound_inv upd s \<longleftrightarrow>
     (is_uptrend s \<longrightarrow> stays_ready upd (fast s) \<and> stays_ready upd (slow s))"

text \<open>
  The invariant of a run with positive prices on the windows 100 and 300: a seeded average
  is positive, \<open>scale\<close> is not negative, and positive while \<open>is_uptrend\<close> holds.
\<close>

definition price_inv :: "ema symbol_data \<Rightarrow> bool" where
  "price_inv s \<longleftrightarrow>
     period (fast s) = 100 \<and> period (slow s) = 300 \<and> tolerance s = 101 / 100 \<and>
     (0 < samples (fast s) \<longrightarrow> 0 < current_value (fast s)) \<and>
     (0 < samples (slow s) \<longrightarrow> 0 < current_value (slow s)) \<and>
     0 \<le> scale s \<and> (is_uptrend s \<longrightarrow> 0 < scale s) \<and>
     bound_inv ema_update s"

text \<open>A history of \<open>n\<close> days at the constant price \<open>c\<close>, with time stamps \<open>0, 1, ...\<close>.\<close>

definition constant_prices :: "nat \<Rightarrow> real \<Rightarrow> (int \<times> real) list" where
  "constant_prices n c = zip [0..int n - 1] (replicate n c)"

text \<open>The daily batches of a universe that holds one symbol.\<close>

fun quotes :: "string \<Rightarrow> (int \<times> real) list \<Rightarrow> coarse_fundamental list list" where
  "quotes symb [] = []"
| "quotes symb ((time, p) # xs) =
     [\<lparr>cf_symbol = symb, end_time = time, adjusted_price = p\<rparr>] # quotes symb xs"

section \<open>Facts about the model\<close>

subsection \<open>One call of update\<close>

lemma feed_averages_eq:
  "feed_averages upd s time v =
     (fst (upd (fast s) time v) \<and> fst (upd (slow s) time v),
      s\<lparr>fast := snd (upd (fast s) time v),
        slow := (if fst (upd (fast s) time v) then snd (upd (slow s) time v) else slow s)\<rparr>)"
  by (simp add: feed_averages_def split: prod.split bool.split)

lemma update_fast: "fast (snd (update upd cur s time v)) = snd (upd (fast s) time v)"
  by (auto simp: update_def feed_averages_eq Let_def split: prod.split option.split)

lemma update_slow:
  "slow (snd (update upd cur s time v)) =
     (if fst (upd (fast s) time v) then snd (upd (slow s) time v) else slow s)"
  by (auto simp: update_def feed_averages_eq Let_def split: prod.split option.split)

lemma update_tolerance: "tolerance (snd (update upd cur s time v)) = tolerance s"
  by (auto simp: update_def feed_averages_eq Let_def split: prod.split option.split)

lemma update_priv_symbol: "priv_symbol (snd (update upd cur s time v)) = priv_symbol s"
  by (auto simp: update_def feed_averages_eq Let_def split: prod.split option.split)

lemma update_is_uptrend:
  "is_uptrend (snd (update upd cur s time v)) =
     (if fst (upd (fast s) time v) \<and> fst (upd (slow s) time v)
      then cur (snd (upd (slow s) time v)) * tolerance s < cur (snd (upd (fast s) time v))
      else is_uptrend s)"
  by (auto simp: update_def feed_averages_eq Let_def split: prod.split option.split)

lemma update_scale:
  "scale (snd (update upd cur s time v)) =
     (if fst (update upd cur s time v) = None \<and> is_uptrend (snd (update upd cur s time v))
      then (cur (snd (upd (fast s) time v)) - cur (snd (upd (slow s) time v))) /
           ((cur (snd (upd (fast s) time v)) + cur (snd (upd (slow s) time v))) / 2)
      else scale s)"
  by (auto simp: update_def feed_averages_eq Let_def split: prod.split option.split)

lemma update_outcome:
  "fst (update upd cur s time v) =
     (if \<not> is_uptrend (snd (update upd cur s time v)) then None
      else if \<not> (fst (upd (fast s) time v) \<and> fst (upd (slow s) time v)) then Some UnboundLocalError
      else if cur (snd (upd (fast s) time v)) + cur (snd (upd (slow s) time v)) = 0
        then Some ZeroDivisionError
      else None)"
  by (auto simp: update_def feed_averages_eq Let_def split: prod.split option.split)

lemma stays_ready_first:
  "ready_monotone upd \<Longrightarrow> fst (upd a time v) \<Longrightarrow> stays_ready upd (snd (upd a time v))"
  by (simp add: ready_monotone_def stays_ready_def)

lemma bound_inv_init: "bound_inv upd (SymbolData mk symb)"
  by (simp add: bound_inv_def SymbolData_def)

lemma bound_inv_update:
  assumes "ready_monotone upd" and "bound_inv upd s"
  shows "bound_inv upd (snd (update upd cur s time v))"
proof (cases "fst (upd (fast s) time v) \<and> fst (upd (slow s) time v)")
  case True
  then show ?thesis
    using assms(1) by (simp add: bound_inv_def update_fast update_slow stays_ready_first)
next
  case False
  then have "is_uptrend (snd (update upd cur s time v)) = is_uptrend s"
    by (auto simp: update_is_uptrend)
  moreover have "\<not> is_uptrend s"
    using False assms(2) by (auto simp: bound_inv_def stays_ready_def)
  ultimately show ?thesis by (simp add: bound_inv_def)
qed

lemma bound_inv_bound:
  assumes "bound_inv upd s" and "is_uptrend (snd (update upd cur s time v))"
  shows "fst (upd (fast s) time v) \<and> fst (upd (slow s) time v)"
proof (rule ccontr)
  assume n: "\<not> (fst (upd (fast s) time v) \<and> fst (upd (slow s) time v))"
  then have "is_uptrend s" using assms(2) by (auto simp: update_is_uptrend)
  then show False using n assms(1) by (auto simp: bound_inv_def stays_ready_def)
qed

lemma run_snoc:
  "run upd cur s (xs @ [(time, v)]) =
     (case run upd cur s xs of
        (None, s') \<Rightarrow> update upd cur s' time v
      | (Some e, s') \<Rightarrow> (Some e, s'))"
  by (induction xs arbitrary: s) (auto split: prod.split option.split)

lemma bound_inv_run:
  "ready_monotone upd \<Longrightarrow> bound_inv upd s \<Longrightarrow> bound_inv upd (snd (run upd cur s xs))"
proof (induction xs arbitrary: s)
  case Nil
  then show ?case by simp
next
  case (Cons x xs)
  obtain time v where x: "x = (time, v)" by (cases x)
  obtain e s' where u: "update upd cur s time v = (e, s')" by (cases "update upd cur s time v")
  have "bound_inv upd s'"
    using bound_inv_update [OF Cons.prems, of cur time v] u by simp
  then show ?case
    using Cons.IH [OF Cons.prems(1), of s'] u x by (cases e) (simp_all)
qed

lemma run_not_unbound:
  assumes "ready_monotone upd" and "bound_inv upd s"
  shows "fst (run upd cur s xs) \<noteq> Some UnboundLocalError"
  using assms
proof (induction xs arbitrary: s)
  case Nil
  then show ?case by simp
next
  case (Cons x xs)
  obtain time v where x: "x = (time, v)" by (cases x)
  obtain e s' where u: "update upd cur s time v = (e, s')" by (cases "update upd cur s time v")
  have i: "bound_inv upd s'"
    using bound_inv_update [OF Cons.prems, of cur time v] u by simp
  have b: "is_uptrend s' \<Longrightarrow> fst (upd (fast s) time v) \<and> fst (upd (slow s) time v)"
    using bound_inv_bound [OF Cons.prems(2), of cur time v] u by simp
  have "e \<noteq> Some UnboundLocalError"
    using update_outcome [of upd cur s time v] u b by (auto split: if_splits)
  then show ?case
    using Cons.IH [OF Cons.prems(1) i] u x by (cases e) simp_all
qed

lemma ema_update_period: "period (snd (ema_update e time p)) = period e"
  by (simp add: ema_update_def Let_def)

lemma ema_update_samples: "samples (snd (ema_update e time p)) = samples e + 1"
  by (simp add: ema_update_def Let_def)

lemma ema_update_ready: "fst (ema_update e time p) = (period e \<le> samples e + 1)"
  by (simp add: ema_update_def Let_def)

lemma ema_update_value:
  "current_value (snd (ema_update e time p)) =
     (if samples e = 0 then p
      else 2 / (real (period e) + 1) * p + (1 - 2 / (real (period e) + 1)) * current_value e)"
  by (simp add: ema_update_def Let_def)

lemma ema_ready_monotone: "ready_monotone ema_update"
  by (simp add: ready_monotone_def ema_update_ready ema_update_period ema_update_samples)


lemma length_constant_prices: "length (constant_prices n c) = n"
  by (simp add: constant_prices_def)

lemma snd_constant_prices: "x \<in> set (constant_prices n c) \<Longrightarrow> snd x = c"
  by (cases x) (auto simp: constant_prices_def dest: set_zip_rightD)

lemma run_flat:
  "0 \<le> c \<Longrightarrow> \<forall>x\<in>set xs. snd x = c \<Longrightarrow>
   run ema_update current_value (SymbolData ExponentialMovingAverage symb) xs =
     (None, \<lparr>priv_symbol = symb, tolerance = 101 / 100,
        fast = \<lparr>period = 100, current_value = (if length xs = 0 then 0 else c), samples = length xs\<rparr>,
        slow = \<lparr>period = 300, current_value = (if length xs < 100 then 0 else c),
                samples = length xs - 99\<rparr>,
        is_uptrend = False, scale = 0\<rparr>)"
proof (induction xs rule: rev_induct)
  case Nil
  then show ?case by (simp add: SymbolData_def ExponentialMovingAverage_def)
next
  case (snoc x xs)
  obtain time where x: "x = (time, c)" using snoc.prems(2) by (cases x) auto
  have ih: "run ema_update current_value (SymbolData ExponentialMovingAverage symb) xs =
     (None, \<lparr>priv_symbol = symb, tolerance = 101 / 100,
        fast = \<lparr>period = 100, current_value = (if length xs = 0 then 0 else c), samples = length xs\<rparr>,
        slow = \<lparr>period = 300, current_value = (if length xs < 100 then 0 else c),
                samples = length xs - 99\<rparr>,
        is_uptrend = False, scale = 0\<rparr>)"
    using snoc by simp
  show ?case
    unfolding x run_snoc ih
    using snoc.prems(1) by (auto simp: update_def feed_averages_eq ema_update_def Let_def field_simps)
qed



lemma run_constant_prices:
  "0 \<le> c \<Longrightarrow>
   run ema_update current_value (SymbolData ExponentialMovingAverage symb) (constant_prices n c) =
     (None, \<lparr>priv_symbol = symb, tolerance = 101 / 100,
        fast = \<lparr>period = 100, current_value = (if n = 0 then 0 else c), samples = n\<rparr>,
        slow = \<lparr>period = 300, current_value = (if n < 100 then 0 else c), samples = n - 99\<rparr>,
        is_uptrend = False, scale = 0\<rparr>)"
  using run_flat [of c "constant_prices n c" symb]
  by (simp add: length_constant_prices snd_constant_prices)

lemma run_tolerance: "tolerance (snd (run upd cur s xs)) = tolerance s"
proof (induction xs arbitrary: s)
  case Nil
  then show ?case by simp
next
  case (Cons x xs)
  obtain time v where x: "x = (time, v)" by (cases x)
  obtain e s' where u: "update upd cur s time v = (e, s')" by (cases "update upd cur s time v")
  have "tolerance s' = tolerance s" using update_tolerance [of upd cur s time v] u by simp
  then show ?case using Cons.IH [of s'] u x by (cases e) simp_all
qed

section \<open>The claims\<close>

subsection \<open>One call of update after any history\<close>

text \<open>
  Claim C1, as amended: on every call of \<^verbatim>\<open>update\<close> the fast accumulator absorbs the
  sample; the slow accumulator absorbs it exactly when the fast accumulator has reported
  ready on that call, and is left as it was otherwise (the \<^verbatim>\<open>and\<close> of line 90 does not
  evaluate its right operand).
\<close>

theorem update_feeds_slow_only_when_fast_ready:
  "fast (snd (update upd cur s time v)) = snd (upd (fast s) time v) \<and>
   slow (snd (update upd cur s time v)) =
     (if fst (upd (fast s) time v) then snd (upd (slow s) time v) else slow s)"
  by (simp add: update_fast update_slow)

text \<open>
  Claim C1 as stated fails: on the first call on a fresh instance the slow accumulator is
  not the one that has absorbed the sample.
\<close>

theorem slow_not_fed_during_fast_warm_up:
  "slow (snd (update ema_update current_value (SymbolData ExponentialMovingAverage ''SPY'') 0 1))
     \<noteq> snd (ema_update (slow (SymbolData ExponentialMovingAverage ''SPY'')) 0 1)"
  by (simp add: update_slow SymbolData_def ExponentialMovingAverage_def ema_update_def Let_def)

text \<open>
  Claim C3: after any history of calls on a fresh instance the tolerance is 1.01, and the
  next call recomputes \<open>is_uptrend\<close> as \<open>fast value > slow value * 1.01\<close> (the values read after
  the accumulators have absorbed the sample) when both accumulators report ready on that
  call, and leaves \<open>is_uptrend\<close> as it was otherwise.
\<close>

theorem is_uptrend_recomputed_iff_both_ready:
  assumes "run upd cur (SymbolData mk symb) xs = (None, s)"
  shows "tolerance s = 101 / 100 \<and>
    is_uptrend (snd (update upd cur s time v)) =
      (if fst (upd (fast s) time v) \<and> fst (upd (slow s) time v)
       then cur (slow (snd (update upd cur s time v))) * (101 / 100)
              < cur (fast (snd (update upd cur s time v)))
       else is_uptrend s)"
proof -
  have t: "tolerance s = 101 / 100"
    using run_tolerance [of upd cur "SymbolData mk symb" xs] assms by (simp add: SymbolData_def)
  have u: "is_uptrend (snd (update upd cur s time v)) =
      (if fst (upd (fast s) time v) \<and> fst (upd (slow s) time v)
       then cur (snd (upd (slow s) time v)) * (101 / 100) < cur (snd (upd (fast s) time v))
       else is_uptrend s)"
    using update_is_uptrend [of upd cur s time v] unfolding t .
  show ?thesis
  proof (cases "fst (upd (fast s) time v) \<and> fst (upd (slow s) time v)")
    case True
    then have "slow (snd (update upd cur s time v)) = snd (upd (slow s) time v)"
      by (simp add: update_slow)
    then show ?thesis using u True t by (simp add: update_fast)
  next
    case False
    then have "is_uptrend (snd (update upd cur s time v)) = is_uptrend s"
      by (auto simp: update_is_uptrend)
    then show ?thesis using False t by auto
  qed
qed

text \<open>
  The hypothesis of C3 at a concrete history: 398 days at price 1, then a day at price 2,
  on which both accumulators are ready for the first time and the uptrend test succeeds.
\<close>

theorem is_uptrend_recomputed_iff_both_ready_witness:
  "fst (run ema_update current_value (SymbolData ExponentialMovingAverage ''SPY'')
          (constant_prices 398 1)) = None \<and>
   is_uptrend (snd (update ema_update current_value
      (snd (run ema_update current_value (SymbolData ExponentialMovingAverage ''SPY'')
          (constant_prices 398 1))) 398 2))"
proof -
  let ?s = "snd (run ema_update current_value (SymbolData ExponentialMovingAverage ''SPY'')
          (constant_prices 398 1))"
  have h: "run ema_update current_value (SymbolData ExponentialMovingAverage ''SPY'')
          (constant_prices 398 1) = (None, ?s)"
    by (simp add: run_constant_prices)
  have h1: "fst (run ema_update current_value (SymbolData ExponentialMovingAverage ''SPY'')
          (constant_prices 398 1)) = None"
    by (simp add: run_constant_prices)
  have r: "fst (ema_update (fast ?s) 398 2) \<and> fst (ema_update (slow ?s) 398 2)"
    by (simp add: run_constant_prices ema_update_def Let_def)
  have c: "current_value (slow (snd (update ema_update current_value ?s 398 2))) * (101 / 100)
             < current_value (fast (snd (update ema_update current_value ?s 398 2)))"
    by (simp add: run_constant_prices update_fast update_slow ema_update_def Let_def)
  show ?thesis
    using is_uptrend_recomputed_iff_both_ready [OF h, of 398 2] h1 r c by presburger
qed

text \<open>
  Claim C4: with accumulators whose readiness is monotone, on every call after any history
  on a fresh instance on which \<open>is_uptrend\<close> is true after the second step and the two
  averages do not sum to zero, no error is raised and \<open>scale\<close> is set to
  \<open>(fast - slow) / ((fast + slow) / 2)\<close>; with averages 110 and 100 this is \<open>10 / 105\<close>.
\<close>

theorem scale_recomputed_in_uptrend:
  assumes "ready_monotone upd"
    and "run upd cur (SymbolData mk symb) xs = (None, s)"
    and "is_uptrend (snd (update upd cur s time v))"
    and "cur (fast (snd (update upd cur s time v))) + cur (slow (snd (update upd cur s time v))) \<noteq> 0"
  shows "fst (update upd cur s time v) = None \<and>
    scale (snd (update upd cur s time v)) =
      (cur (fast (snd (update upd cur s time v))) - cur (slow (snd (update upd cur s time v)))) /
      ((cur (fast (snd (update upd cur s time v))) + cur (slow (snd (update upd cur s time v)))) / 2) \<and>
    (cur (fast (snd (update upd cur s time v))) = 110 \<and>
     cur (slow (snd (update upd cur s time v))) = 100 \<longrightarrow>
       scale (snd (update upd cur s time v)) = 10 / 105)"
proof -
  have "bound_inv upd (snd (run upd cur (SymbolData mk symb) xs))"
    using assms(1) bound_inv_init by (rule bound_inv_run)
  then have "bound_inv upd s" using assms(2) by simp
  then have b: "fst (upd (fast s) time v) \<and> fst (upd (slow s) time v)"
    using assms(3) by (rule bound_inv_bound)
  have f: "cur (fast (snd (update upd cur s time v))) = cur (snd (upd (fast s) time v))"
    by (simp add: update_fast)
  have l: "cur (slow (snd (update upd cur s time v))) = cur (snd (upd (slow s) time v))"
    using b by (simp add: update_slow)
  have o: "fst (update upd cur s time v) = None"
    using update_outcome [of upd cur s time v] assms(3,4) b f l by simp
  have sc: "scale (snd (update upd cur s time v)) =
      (cur (fast (snd (update upd cur s time v))) - cur (slow (snd (update upd cur s time v)))) /
      ((cur (fast (snd (update upd cur s time v))) + cur (slow (snd (update upd cur s time v)))) / 2)"
    using update_scale [of upd cur s time v] o assms(3) f l by simp
  show ?thesis using o sc by simp
qed

text \<open>
  The hypotheses of C4 at a concrete history: 398 days at price 94.95, then a day at price
  854.975, after which the fast average is 110 and the slow average is 100.
\<close>

theorem scale_recomputed_in_uptrend_witness:
  "fst (run ema_update current_value (SymbolData ExponentialMovingAverage ''SPY'')
          (constant_prices 398 (1899 / 20))) = None \<and>
   is_uptrend (snd (update ema_update current_value
      (snd (run ema_update current_value (SymbolData ExponentialMovingAverage ''SPY'')
          (constant_prices 398 (1899 / 20)))) 398 (34199 / 40))) \<and>
   current_value (fast (snd (update ema_update current_value
      (snd (run ema_update current_value (SymbolData ExponentialMovingAverage ''SPY'')
          (constant_prices 398 (1899 / 20)))) 398 (34199 / 40)))) = 110 \<and>
   current_value (slow (snd (update ema_update current_value
      (snd (run ema_update current_value (SymbolData ExponentialMovingAverage ''SPY'')
          (constant_prices 398 (1899 / 20)))) 398 (34199 / 40)))) = 100 \<and>
   scale (snd (update ema_update current_value
      (snd (run ema_update current_value (SymbolData ExponentialMovingAverage ''SPY'')
          (constant_prices 398 (1899 / 20)))) 398 (34199 / 40))) = 10 / 105"
proof -
  let ?s = "snd (run ema_update current_value (SymbolData ExponentialMovingAverage ''SPY'')
          (constant_prices 398 (1899 / 20)))"
  have h: "run ema_update current_value (SymbolData ExponentialMovingAverage ''SPY'')
          (constant_prices 398 (1899 / 20)) = (None, ?s)"
    by (simp add: run_constant_prices)
  have h1: "fst (run ema_update current_value (SymbolData ExponentialMovingAverage ''SPY'')
          (constant_prices 398 (1899 / 20))) = None"
    by (simp add: run_constant_prices)
  have u: "is_uptrend (snd (update ema_update current_value ?s 398 (34199 / 40)))"
    by (simp add: run_constant_prices update_is_uptrend ema_update_def Let_def)
  have f: "current_value (fast (snd (update ema_update current_value ?s 398 (34199 / 40)))) = 110"
    by (simp add: run_constant_prices update_fast ema_update_def Let_def)
  have l: "current_value (slow (snd (update ema_update current_value ?s 398 (34199 / 40)))) = 100"
    by (simp add: run_constant_prices update_slow ema_update_def Let_def)
  have n: "current_value (fast (snd (update ema_update current_value ?s 398 (34199 / 40)))) +
           current_value (slow (snd (update ema_update current_value ?s 398 (34199 / 40)))) \<noteq> 0"
    by (simp add: f l)
  show ?thesis
    using scale_recomputed_in_uptrend [OF ema_ready_monotone h u n] h1 u f l by blast
qed

text \<open>
  Claim C9: with accumulators whose readiness is monotone, \<open>is_uptrend\<close> starts false, no
  call of any run on a fresh instance raises \<^verbatim>\<open>UnboundLocalError\<close>, and on every call of such
  a run that ends with \<open>is_uptrend\<close> true both accumulators have reported ready on that very
  call, so the locals read by the scale computation were bound in it; on any instance,
  \<open>is_uptrend\<close> only turns from false to true on a call where both have reported ready.
\<close>

theorem unbound_read_unreachable:
  assumes "ready_monotone upd"
  shows "\<not> is_uptrend (SymbolData mk symb) \<and>
    fst (run upd cur (SymbolData mk symb) xs) \<noteq> Some UnboundLocalError \<and>
    (run upd cur (SymbolData mk symb) xs = (None, s) \<and>
       is_uptrend (snd (update upd cur s time v)) \<longrightarrow>
         fst (upd (fast s) time v) \<and> fst (upd (slow s) time v)) \<and>
    (\<not> is_uptrend s0 \<and> is_uptrend (snd (update upd cur s0 time v)) \<longrightarrow>
         fst (upd (fast s0) time v) \<and> fst (upd (slow s0) time v))"
proof -
  have a: "\<not> is_uptrend (SymbolData mk symb)" by (simp add: SymbolData_def)
  have b: "fst (run upd cur (SymbolData mk symb) xs) \<noteq> Some UnboundLocalError"
    using assms bound_inv_init by (rule run_not_unbound)
  have c: "fst (upd (fast s) time v) \<and> fst (upd (slow s) time v)"
    if r: "run upd cur (SymbolData mk symb) xs = (None, s)"
      and u: "is_uptrend (snd (update upd cur s time v))"
  proof -
    have "bound_inv upd (snd (run upd cur (SymbolData mk symb) xs))"
      using assms bound_inv_init by (rule bound_inv_run)
    then have "bound_inv upd s" using r by simp
    then show ?thesis using u by (rule bound_inv_bound)
  qed
  have d: "fst (upd (fast s0) time v) \<and> fst (upd (slow s0) time v)"
    if "\<not> is_uptrend s0" and "is_uptrend (snd (update upd cur s0 time v))"
    using that by (auto simp: update_is_uptrend split: if_splits)
  show ?thesis using a b c d by blast
qed

text \<open>
  The hypotheses of C9 with the spec's accumulator: 398 days at price 1 and a day at price
  2, the call on which \<open>is_uptrend\<close> first becomes true.
\<close>

theorem unbound_read_unreachable_witness:
  "ready_monotone ema_update \<and>
   fst (run ema_update current_value (SymbolData ExponentialMovingAverage ''SPY'')
          (constant_prices 398 1)) = None \<and>
   \<not> is_uptrend (snd (run ema_update current_value (SymbolData ExponentialMovingAverage ''SPY'')
          (constant_prices 398 1))) \<and>
   is_uptrend (snd (update ema_update current_value
      (snd (run ema_update current_value (SymbolData ExponentialMovingAverage ''SPY'')
          (constant_prices 398 1))) 398 2)) \<and>
   fst (ema_update (fast (snd (run ema_update current_value
      (SymbolData ExponentialMovingAverage ''SPY'') (constant_prices 398 1)))) 398 2) \<and>
   fst (ema_update (slow (snd (run ema_update current_value
      (SymbolData ExponentialMovingAverage ''SPY'') (constant_prices 398 1)))) 398 2) \<and>
   fst (run ema_update current_value (SymbolData ExponentialMovingAverage ''SPY'')
          (constant_prices 398 1 @ [(398, 2)])) \<noteq> Some UnboundLocalError"
proof -
  let ?s = "snd (run ema_update current_value (SymbolData ExponentialMovingAverage ''SPY'')
          (constant_prices 398 1))"
  have h: "run ema_update current_value (SymbolData ExponentialMovingAverage ''SPY'')
          (constant_prices 398 1) = (None, ?s)"
    by (simp add: run_constant_prices)
  have h1: "fst (run ema_update current_value (SymbolData ExponentialMovingAverage ''SPY'')
          (constant_prices 398 1)) = None"
    by (simp add: run_constant_prices)
  have n: "\<not> is_uptrend ?s"
    by (simp add: run_constant_prices)
  have u: "is_uptrend (snd (update ema_update current_value ?s 398 2))"
    by (simp add: run_constant_prices update_is_uptrend ema_update_def Let_def)
  show ?thesis
    using unbound_read_unreachable [OF ema_ready_monotone,
        of ExponentialMovingAverage "''SPY''" current_value "constant_prices 398 1 @ [(398, 2)]"]
      unbound_read_unreachable [OF ema_ready_monotone,
        of ExponentialMovingAverage "''SPY''" current_value "constant_prices 398 1" ?s 398 2 ?s]
      ema_ready_monotone h h1 n u
    by blast
qed

subsection \<open>The warm-up\<close>

text \<open>
  The state during the warm-up. The slow accumulator absorbs its first sample on call 100,
  so it reports ready on call 399 at the earliest.
\<close>

lemma warm_up_state:
  "length xs \<le> 398 \<Longrightarrow>
   \<exists>s. run ema_update current_value (SymbolData ExponentialMovingAverage symb) xs = (None, s) \<and>
       period (fast s) = 100 \<and> period (slow s) = 300 \<and>
       samples (fast s) = length xs \<and> samples (slow s) = length xs - 99 \<and>
       \<not> is_uptrend s \<and> scale s = 0"
proof (induction xs rule: rev_induct)
  case Nil
  then show ?case by (simp add: SymbolData_def ExponentialMovingAverage_def)
next
  case (snoc x xs)
  obtain time v where x: "x = (time, v)" by (cases x)
  from snoc obtain s where
    r: "run ema_update current_value (SymbolData ExponentialMovingAverage symb) xs = (None, s)"
    and s: "period (fast s) = 100" "period (slow s) = 300" "samples (fast s) = length xs"
      "samples (slow s) = length xs - 99" "\<not> is_uptrend s" "scale s = 0"
    by auto
  let ?u = "update ema_update current_value s time v"
  have l: "length xs \<le> 397" using snoc.prems by simp
  have nr: "\<not> fst (ema_update (slow s) time v)"
    using l s by (simp add: ema_update_ready)
  have iu: "\<not> is_uptrend (snd ?u)" using nr s(5) by (simp add: update_is_uptrend)
  have o: "fst ?u = None" using iu by (simp add: update_outcome)
  have sc: "scale (snd ?u) = 0" using iu s(6) by (simp add: update_scale)
  have f: "period (fast (snd ?u)) = 100 \<and> samples (fast (snd ?u)) = length xs + 1"
    using s by (simp add: update_fast ema_update_period ema_update_samples)
  have sl: "period (slow (snd ?u)) = 300 \<and> samples (slow (snd ?u)) = length xs + 1 - 99"
    using s by (auto simp: update_slow ema_update_period ema_update_samples ema_update_ready)
  have "run ema_update current_value (SymbolData ExponentialMovingAverage symb) (xs @ [x]) = ?u"
    by (simp add: x run_snoc r)
  moreover have "?u = (None, snd ?u)" using o by (metis prod.collapse)
  ultimately show ?case using iu sc f sl by auto
qed

text \<open>
  Claim C2: with the windows 100 and 300 and any samples, as long as fewer than 300 samples
  have been fed, no call has raised an error, \<open>is_uptrend\<close> is false and \<open>scale\<close> is 0.
\<close>

theorem warm_up_gating:
  assumes "length xs < 300"
  shows "fst (run ema_update current_value (SymbolData ExponentialMovingAverage symb) xs) = None \<and>
    \<not> is_uptrend (snd (run ema_update current_value (SymbolData ExponentialMovingAverage symb) xs)) \<and>
    scale (snd (run ema_update current_value (SymbolData ExponentialMovingAverage symb) xs)) = 0"
proof -
  have "length xs \<le> 398" using assms by simp
  from warm_up_state [OF this, of symb] show ?thesis by auto
qed

text \<open>The hypothesis of C2 at a history of three days with prices 10, 1000 and 1.\<close>

theorem warm_up_gating_witness:
  "length [(0::int, 10::real), (1, 1000), (2, 1)] < 300 \<and>
   fst (run ema_update current_value (SymbolData ExponentialMovingAverage ''SPY'')
      [(0, 10), (1, 1000), (2, 1)]) = None \<and>
   \<not> is_uptrend (snd (run ema_update current_value (SymbolData ExponentialMovingAverage ''SPY'')
      [(0, 10), (1, 1000), (2, 1)])) \<and>
   scale (snd (run ema_update current_value (SymbolData ExponentialMovingAverage ''SPY'')
      [(0, 10), (1, 1000), (2, 1)])) = 0"
proof -
  have h: "length [(0::int, 10::real), (1, 1000), (2, 1)] < 300" by simp
  show ?thesis using warm_up_gating [OF h, of "''SPY''"] h by blast
qed

subsection \<open>Positive prices\<close>

lemma ema_update_positive:
  assumes "0 < period e" and "0 < samples e \<Longrightarrow> 0 < current_value e" and "0 < p"
  shows "0 < current_value (snd (ema_update e time p))"
proof (cases "samples e = 0")
  case True
  then show ?thesis using assms(3) by (simp add: ema_update_value)
next
  case False
  have k: "0 < 2 / (real (period e) + 1)" by simp
  have "2 \<le> real (period e) + 1" using assms(1) by simp
  then have k1: "0 \<le> 1 - 2 / (real (period e) + 1)" by simp
  have "0 < 2 / (real (period e) + 1) * p" using k assms(3) by simp
  moreover have "0 \<le> (1 - 2 / (real (period e) + 1)) * current_value e"
    using k1 assms(2) False by (simp add: less_imp_le)
  ultimately show ?thesis using False by (simp add: ema_update_value add_pos_nonneg)
qed

lemma scale_formula_positive:
  fixes f sl :: real
  assumes "0 < sl" and "sl * (101 / 100) < f"
  shows "0 < (f - sl) / ((f + sl) / 2)"
proof -
  have "sl < f" using assms by simp
  then show ?thesis using assms(1) by simp
qed

lemma price_inv_init: "price_inv (SymbolData ExponentialMovingAverage symb)"
  by (simp add: price_inv_def SymbolData_def ExponentialMovingAverage_def bound_inv_def)

lemma price_inv_update:
  assumes "price_inv s" and "0 < v"
  shows "fst (update ema_update current_value s time v) = None \<and>
         price_inv (snd (update ema_update current_value s time v))"
proof -
  let ?u = "update ema_update current_value s time v"
  let ?f = "snd (ema_update (fast s) time v)"
  let ?l = "snd (ema_update (slow s) time v)"
  have p: "period (fast s) = 100" "period (slow s) = 300" "tolerance s = 101 / 100"
    "0 < samples (fast s) \<Longrightarrow> 0 < current_value (fast s)"
    "0 < samples (slow s) \<Longrightarrow> 0 < current_value (slow s)"
    "0 \<le> scale s" "bound_inv ema_update s"
    using assms(1) by (simp_all add: price_inv_def)
  have fpos: "0 < current_value ?f"
    using p(1,4) assms(2) by (intro ema_update_positive) simp_all
  have lpos: "0 < current_value ?l"
    using p(2,5) assms(2) by (intro ema_update_positive) simp_all
  have bi: "bound_inv ema_update (snd ?u)"
    using ema_ready_monotone p(7) by (rule bound_inv_update)
  have pf: "period (fast (snd ?u)) = 100 \<and> (0 < samples (fast (snd ?u)) \<longrightarrow> 0 < current_value (fast (snd ?u)))"
    using p(1) fpos by (simp add: update_fast ema_update_period)
  have pl: "period (slow (snd ?u)) = 300 \<and> (0 < samples (slow (snd ?u)) \<longrightarrow> 0 < current_value (slow (snd ?u)))"
    using p(2,5) lpos by (simp add: update_slow ema_update_period)
  have tl: "tolerance (snd ?u) = 101 / 100" using p(3) by (simp add: update_tolerance)
  show ?thesis
  proof (cases "is_uptrend (snd ?u)")
    case False
    then have "fst ?u = None" by (simp add: update_outcome)
    moreover have "scale (snd ?u) = scale s" using False by (simp add: update_scale)
    ultimately show ?thesis using False bi pf pl tl p(6) by (simp add: price_inv_def)
  next
    case True
    have b: "fst (ema_update (fast s) time v) \<and> fst (ema_update (slow s) time v)"
      using p(7) True by (rule bound_inv_bound)
    then have t: "current_value ?l * (101 / 100) < current_value ?f"
      using True p(3) by (simp add: update_is_uptrend)
    have nz: "current_value ?f + current_value ?l \<noteq> 0" using fpos lpos by simp
    have o: "fst ?u = None" using b nz by (simp add: update_outcome)
    have "scale (snd ?u) = (current_value ?f - current_value ?l) / ((current_value ?f + current_value ?l) / 2)"
      using o True by (simp add: update_scale)
    then have "0 < scale (snd ?u)" using scale_formula_positive [OF lpos t] by simp
    then show ?thesis using o bi pf pl tl by (simp add: price_inv_def)
  qed
qed

lemma price_inv_run:
  "price_inv s \<Longrightarrow> \<forall>x\<in>set xs. 0 < snd x \<Longrightarrow>
   fst (run ema_update current_value s xs) = None \<and> price_inv (snd (run ema_update current_value s xs))"
proof (induction xs arbitrary: s)
  case Nil
  then show ?case by simp
next
  case (Cons x xs)
  obtain time v where x: "x = (time, v)" by (cases x)
  have v: "0 < v" using Cons.prems(2) x by simp
  obtain e s' where u: "update ema_update current_value s time v = (e, s')"
    by (cases "update ema_update current_value s time v")
  have e: "e = None" and i: "price_inv s'"
    using price_inv_update [OF Cons.prems(1) v, of time] u by simp_all
  have "\<forall>x\<in>set xs. 0 < snd x" using Cons.prems(2) by simp
  from Cons.IH [OF i this] show ?case using u e x by simp
qed

text \<open>
  Claim C10: along every run of calls with strictly positive prices on a fresh instance, no
  call raises, \<open>scale\<close> is at least 0 after every call, and after a call that ends with
  \<open>is_uptrend\<close> true, the calls on which \<open>scale\<close> is recomputed, it is strictly positive.
\<close>

theorem scale_nonnegative:
  assumes "\<forall>x\<in>set xs. 0 < snd x"
  shows "fst (run ema_update current_value (SymbolData ExponentialMovingAverage symb) xs) = None \<and>
    0 \<le> scale (snd (run ema_update current_value (SymbolData ExponentialMovingAverage symb) xs)) \<and>
    (is_uptrend (snd (run ema_update current_value (SymbolData ExponentialMovingAverage symb) xs))
       \<longrightarrow> 0 < scale (snd (run ema_update current_value (SymbolData ExponentialMovingAverage symb) xs)))"
  using price_inv_run [OF price_inv_init assms, of symb] by (simp add: price_inv_def)

text \<open>
  The hypotheses of C10 at 398 days at price 1 followed by a day at price 2, which ends in
  an uptrend.
\<close>

theorem scale_nonnegative_witness:
  "fst (run ema_update current_value (SymbolData ExponentialMovingAverage ''SPY'')
      (constant_prices 398 1 @ [(398, 2)])) = None \<and>
   is_uptrend (snd (run ema_update current_value (SymbolData ExponentialMovingAverage ''SPY'')
      (constant_prices 398 1 @ [(398, 2)]))) \<and>
   0 < scale (snd (run ema_update current_value (SymbolData ExponentialMovingAverage ''SPY'')
      (constant_prices 398 1 @ [(398, 2)])))"
proof -
  have h: "\<forall>x\<in>set (constant_prices 398 1 @ [(398, 2)]). 0 < snd x"
    by (auto dest: snd_constant_prices)
  have u: "is_uptrend (snd (run ema_update current_value (SymbolData ExponentialMovingAverage ''SPY'')
      (constant_prices 398 1 @ [(398, 2)])))"
    by (simp add: run_snoc run_constant_prices update_is_uptrend ema_update_def Let_def)
  show ?thesis using scale_nonnegative [OF h, of "''SPY''"] u by blast
qed

subsection \<open>Calls that do not end in an uptrend\<close>

lemma run_single: "run upd cur s [(time, v)] = update upd cur s time v"
  by (cases "update upd cur s time v") (auto split: option.split)

lemma scale_zero_before_uptrend:
  "\<forall>n\<le>length xs. \<not> is_uptrend (snd (run upd cur (SymbolData mk symb) (take n xs))) \<Longrightarrow>
   scale (snd (run upd cur (SymbolData mk symb) xs)) = 0"
proof (induction xs rule: rev_induct)
  case Nil
  then show ?case by (simp add: SymbolData_def)
next
  case (snoc x xs)
  obtain time v where x: "x = (time, v)" by (cases x)
  have "\<forall>n\<le>length xs. \<not> is_uptrend (snd (run upd cur (SymbolData mk symb) (take n xs)))"
  proof (intro allI impI)
    fix n assume n: "n \<le> length xs"
    then have "n \<le> length (xs @ [x])" by simp
    then have "\<not> is_uptrend (snd (run upd cur (SymbolData mk symb) (take n (xs @ [x]))))"
      using snoc.prems by blast
    then show "\<not> is_uptrend (snd (run upd cur (SymbolData mk symb) (take n xs)))"
      using n by simp
  qed
  then have ih: "scale (snd (run upd cur (SymbolData mk symb) xs)) = 0" by (rule snoc.IH)
  have last: "\<not> is_uptrend (snd (run upd cur (SymbolData mk symb) (xs @ [x])))"
    using snoc.prems [rule_format, of "length (xs @ [x])"] by simp
  obtain e s where r: "run upd cur (SymbolData mk symb) xs = (e, s)"
    by (cases "run upd cur (SymbolData mk symb) xs")
  show ?case
  proof (cases e)
    case None
    then have "run upd cur (SymbolData mk symb) (xs @ [x]) = update upd cur s time v"
      by (simp add: x run_snoc r)
    then show ?thesis using last ih r by (simp add: update_scale)
  next
    case (Some a)
    then show ?thesis using ih r by (simp add: x run_snoc)
  qed
qed

text \<open>
  Claim C5, as amended: on every call after which \<open>is_uptrend\<close> is false, no error is raised
  and \<open>scale\<close> keeps the value it had before the call, so that it is still the initial 0 as
  long as no call has ended in an uptrend; \<open>is_uptrend\<close> keeps its value when the
  accumulators have not both reported ready on the call.
\<close>

theorem non_uptrend_call_keeps_scale:
  "(\<not> is_uptrend (snd (update upd cur s time v)) \<longrightarrow>
      fst (update upd cur s time v) = None \<and>
      scale (snd (update upd cur s time v)) = scale s \<and>
      (\<not> (fst (upd (fast s) time v) \<and> fst (upd (slow s) time v)) \<longrightarrow>
         is_uptrend (snd (update upd cur s time v)) = is_uptrend s)) \<and>
   ((\<forall>n\<le>length xs. \<not> is_uptrend (snd (run upd cur (SymbolData mk symb) (take n xs)))) \<longrightarrow>
      scale (snd (run upd cur (SymbolData mk symb) xs)) = 0)"
proof -
  have a: "fst (update upd cur s time v) = None \<and> scale (snd (update upd cur s time v)) = scale s"
    if "\<not> is_uptrend (snd (update upd cur s time v))"
    using that by (simp add: update_outcome update_scale)
  have b: "is_uptrend (snd (update upd cur s time v)) = is_uptrend s"
    if "\<not> (fst (upd (fast s) time v) \<and> fst (upd (slow s) time v))"
    using that by (auto simp: update_is_uptrend)
  show ?thesis using a b scale_zero_before_uptrend [of xs upd cur mk symb] by blast
qed

text \<open>The hypotheses of C5 at the first call on a fresh instance.\<close>

theorem non_uptrend_call_keeps_scale_witness:
  "\<not> is_uptrend (snd (update ema_update current_value (SymbolData ExponentialMovingAverage ''SPY'') 0 1)) \<and>
   fst (update ema_update current_value (SymbolData ExponentialMovingAverage ''SPY'') 0 1) = None \<and>
   scale (snd (update ema_update current_value (SymbolData ExponentialMovingAverage ''SPY'') 0 1)) =
     scale (SymbolData ExponentialMovingAverage ''SPY'') \<and>
   is_uptrend (snd (update ema_update current_value (SymbolData ExponentialMovingAverage ''SPY'') 0 1)) =
     is_uptrend (SymbolData ExponentialMovingAverage ''SPY'') \<and>
   scale (snd (run ema_update current_value (SymbolData ExponentialMovingAverage ''SPY'') [(0, 1)])) = 0"
proof -
  let ?i = "SymbolData ExponentialMovingAverage ''SPY''"
  have nr: "\<not> (fst (ema_update (fast ?i) 0 1) \<and> fst (ema_update (slow ?i) 0 1))"
    by (simp add: SymbolData_def ExponentialMovingAverage_def ema_update_def Let_def)
  have n: "\<not> is_uptrend (snd (update ema_update current_value ?i 0 1))"
    using nr by (auto simp: update_is_uptrend SymbolData_def)
  have "\<not> is_uptrend (snd (run ema_update current_value ?i (take k [(0, 1)])))" for k
  proof (cases k)
    case 0
    then show ?thesis by (simp add: SymbolData_def)
  next
    case (Suc m)
    then show ?thesis using n by (simp add: run_single del: run.simps)
  qed
  then have q: "\<forall>k\<le>length [(0::int, 1::real)].
      \<not> is_uptrend (snd (run ema_update current_value ?i (take k [(0, 1)])))"
    by blast
  show ?thesis
    using non_uptrend_call_keeps_scale [of ema_update current_value ?i 0 1 "[(0, 1)]"
        ExponentialMovingAverage "''SPY''"] nr n q
    by blast
qed

text \<open>
  Claim C5 as stated fails for \<open>is_uptrend\<close>: after 398 days at price 1 and a day at price 2
  the instance is in an uptrend; the next day at price 1/2 both accumulators are ready, the
  test fails, and \<open>is_uptrend\<close> is false after the call although it was true before it.
\<close>

theorem failed_test_clears_is_uptrend:
  "is_uptrend (snd (run ema_update current_value (SymbolData ExponentialMovingAverage ''SPY'')
      (constant_prices 398 1 @ [(398, 2)]))) \<and>
   \<not> is_uptrend (snd (update ema_update current_value
      (snd (run ema_update current_value (SymbolData ExponentialMovingAverage ''SPY'')
         (constant_prices 398 1 @ [(398, 2)]))) 399 (1 / 2)))"
  by (simp add: run_snoc run_constant_prices update_def feed_averages_eq ema_update_def Let_def)

subsection \<open>Replaying a sample\<close>

lemma ema_update_fixed_point:
  "current_value e = p \<Longrightarrow> current_value (snd (ema_update e time p)) = p"
  by (simp add: ema_update_value algebra_simps)

lemma ema_update_moves:
  assumes "0 < samples e" and "current_value e \<noteq> p"
  shows "current_value (snd (ema_update e time p)) \<noteq> current_value e"
proof
  let ?k = "2 / (real (period e) + 1)"
  assume "current_value (snd (ema_update e time p)) = current_value e"
  then have "?k * p + (1 - ?k) * current_value e = current_value e"
    using assms(1) by (simp add: ema_update_value)
  then have "?k * (p - current_value e) = 0" by (simp add: algebra_simps)
  moreover have "?k \<noteq> 0"
  proof -
    have "0 < real (period e) + 1" by simp
    then show ?thesis by simp
  qed
  ultimately show False using assms(2) by simp
qed

lemma no_uptrend_at_equal_averages:
  assumes "run ema_update current_value (SymbolData ExponentialMovingAverage symb) xs = (None, s)"
    and "0 < p"
    and "current_value (fast (snd (update ema_update current_value s time v))) = p"
    and "current_value (slow (snd (update ema_update current_value s time v))) = p"
  shows "\<not> is_uptrend (snd (update ema_update current_value s time v))"
proof
  let ?u = "update ema_update current_value s time v"
  assume u: "is_uptrend (snd ?u)"
  have "bound_inv ema_update (snd (run ema_update current_value (SymbolData ExponentialMovingAverage symb) xs))"
    using ema_ready_monotone bound_inv_init by (rule bound_inv_run)
  then have "bound_inv ema_update s" using assms(1) by simp
  then have b: "fst (ema_update (fast s) time v) \<and> fst (ema_update (slow s) time v)"
    using u by (rule bound_inv_bound)
  have t: "tolerance s = 101 / 100"
    using run_tolerance [of ema_update current_value "SymbolData ExponentialMovingAverage symb" xs]
      assms(1) by (simp add: SymbolData_def)
  have f: "current_value (snd (ema_update (fast s) time v)) = p"
    using assms(3) by (simp add: update_fast)
  have l: "current_value (snd (ema_update (slow s) time v)) = p"
    using assms(4) b by (simp add: update_slow)
  have "is_uptrend (snd ?u) =
      (if fst (ema_update (fast s) time v) \<and> fst (ema_update (slow s) time v)
       then p * (101 / 100) < p else is_uptrend s)"
    using update_is_uptrend [of ema_update current_value s time v] unfolding t f l .
  then have "is_uptrend (snd ?u) = (p * (101 / 100) < p)" using b by simp
  then show False using u assms(2) by simp
qed

text \<open>
  Claim C8, as amended: after any history on a fresh instance, if a sample with a positive
  price has been fed and both smoothed values then equal that price, feeding the same sample
  again raises no error, leaves \<open>is_uptrend\<close> and \<open>scale\<close> as the first call left them and
  leaves both smoothed values at the price. The recurrence has the price as a fixed point: an
  accumulator whose value is the price keeps it, and an accumulator that has absorbed a
  sample and whose value differs from the price changes its value when it is updated. Replay
  is not a no-op in general: after 398 days at price 1, feeding (398, 17/10) twice leaves
  \<open>is_uptrend\<close> false and \<open>scale\<close> 0 on the first call and makes \<open>is_uptrend\<close> true and
  \<open>scale\<close> positive on the second.
\<close>

theorem replay_at_fixed_point:
  assumes "run ema_update current_value (SymbolData ExponentialMovingAverage symb) xs = (None, s)"
    and "0 < p"
    and "current_value (fast (snd (update ema_update current_value s time p))) = p"
    and "current_value (slow (snd (update ema_update current_value s time p))) = p"
  shows "fst (update ema_update current_value (snd (update ema_update current_value s time p)) time p) = None \<and>
    is_uptrend (snd (update ema_update current_value (snd (update ema_update current_value s time p)) time p)) =
      is_uptrend (snd (update ema_update current_value s time p)) \<and>
    scale (snd (update ema_update current_value (snd (update ema_update current_value s time p)) time p)) =
      scale (snd (update ema_update current_value s time p)) \<and>
    current_value (fast (snd (update ema_update current_value
      (snd (update ema_update current_value s time p)) time p))) = p \<and>
    current_value (slow (snd (update ema_update current_value
      (snd (update ema_update current_value s time p)) time p))) = p \<and>
    (current_value e = p \<longrightarrow> current_value (snd (ema_update e time p)) = p) \<and>
    (0 < samples e' \<and> current_value e' \<noteq> p \<longrightarrow>
       current_value (snd (ema_update e' time p)) \<noteq> current_value e') \<and>
    \<not> is_uptrend (snd (update ema_update current_value
      (snd (run ema_update current_value (SymbolData ExponentialMovingAverage ''SPY'')
         (constant_prices 398 1))) 398 (17 / 10))) \<and>
    scale (snd (update ema_update current_value
      (snd (run ema_update current_value (SymbolData ExponentialMovingAverage ''SPY'')
         (constant_prices 398 1))) 398 (17 / 10))) = 0 \<and>
    is_uptrend (snd (update ema_update current_value (snd (update ema_update current_value
      (snd (run ema_update current_value (SymbolData ExponentialMovingAverage ''SPY'')
         (constant_prices 398 1))) 398 (17 / 10))) 398 (17 / 10))) \<and>
    0 < scale (snd (update ema_update current_value (snd (update ema_update current_value
      (snd (run ema_update current_value (SymbolData ExponentialMovingAverage ''SPY'')
         (constant_prices 398 1))) 398 (17 / 10))) 398 (17 / 10)))"
proof -
  let ?s1 = "snd (update ema_update current_value s time p)"
  let ?u2 = "update ema_update current_value ?s1 time p"
  let ?w = "snd (run ema_update current_value (SymbolData ExponentialMovingAverage ''SPY'')
         (constant_prices 398 1))"
  let ?w1 = "snd (update ema_update current_value ?w 398 (17 / 10))"
  have n1: "\<not> is_uptrend ?s1"
    using assms by (rule no_uptrend_at_equal_averages)
  have t: "tolerance ?s1 = 101 / 100"
    using run_tolerance [of ema_update current_value "SymbolData ExponentialMovingAverage symb" xs]
      assms(1) by (simp add: SymbolData_def update_tolerance)
  have f: "current_value (snd (ema_update (fast ?s1) time p)) = p"
    using assms(3) by (rule ema_update_fixed_point)
  have l: "current_value (snd (ema_update (slow ?s1) time p)) = p"
    using assms(4) by (rule ema_update_fixed_point)
  have "is_uptrend (snd ?u2) =
      (if fst (ema_update (fast ?s1) time p) \<and> fst (ema_update (slow ?s1) time p)
       then p * (101 / 100) < p else is_uptrend ?s1)"
    using update_is_uptrend [of ema_update current_value ?s1 time p] unfolding t f l .
  then have n2: "\<not> is_uptrend (snd ?u2)" using n1 assms(2) by (simp split: if_splits)
  have o: "fst ?u2 = None" using n2 by (simp add: update_outcome)
  have sc: "scale (snd ?u2) = scale ?s1" using n2 by (simp add: update_scale)
  have vf: "current_value (fast (snd ?u2)) = p" using f by (simp add: update_fast)
  have vl: "current_value (slow (snd ?u2)) = p" using l assms(4) by (simp add: update_slow)
  have a1: "\<not> is_uptrend ?w1"
    by (simp add: run_constant_prices update_is_uptrend ema_update_def Let_def)
  have a2: "scale ?w1 = 0"
    using a1 by (simp add: update_scale) (simp add: run_constant_prices)
  have w1: "?w1 = \<lparr>priv_symbol = ''SPY'', tolerance = 101 / 100,
        fast = \<lparr>period = 100, current_value = 512 / 505, samples = 399\<rparr>,
        slow = \<lparr>period = 300, current_value = 216 / 215, samples = 300\<rparr>,
        is_uptrend = False, scale = 0\<rparr>"
    by (simp add: run_constant_prices update_def feed_averages_eq ema_update_def Let_def)
  have a3: "is_uptrend (snd (update ema_update current_value ?w1 398 (17 / 10)))"
    unfolding w1 by (simp add: update_is_uptrend ema_update_def Let_def)
  have a4: "0 < scale (snd (update ema_update current_value ?w1 398 (17 / 10)))"
    unfolding w1 by (simp add: update_def feed_averages_eq ema_update_def Let_def)
  show ?thesis
    using n1 n2 o sc vf vl a1 a2 a3 a4
      ema_update_fixed_point [of e p time] ema_update_moves [of e' p time]
    by blast
qed

text \<open>
  The hypotheses of C8 where both accumulators are ready: 400 days at price 1 followed by
  the sample (400, 1) fed twice. In the same state the price matters: feeding (400, 17/10)
  twice turns \<open>is_uptrend\<close> from false to true on the second call. The two facts on the
  recurrence are taken at accumulators with the values 1 and 3.
\<close>

theorem replay_at_fixed_point_witness:
  "fst (run ema_update current_value (SymbolData ExponentialMovingAverage ''SPY'')
      (constant_prices 400 1)) = None \<and>
   current_value (fast (snd (update ema_update current_value
      (snd (run ema_update current_value (SymbolData ExponentialMovingAverage ''SPY'')
         (constant_prices 400 1))) 400 1))) = 1 \<and>
   current_value (slow (snd (update ema_update current_value
      (snd (run ema_update current_value (SymbolData ExponentialMovingAverage ''SPY'')
         (constant_prices 400 1))) 400 1))) = 1 \<and>
   fst (ema_update (fast (snd (update ema_update current_value
      (snd (run ema_update current_value (SymbolData ExponentialMovingAverage ''SPY'')
         (constant_prices 400 1))) 400 1))) 400 1) \<and>
   fst (ema_update (slow (snd (update ema_update current_value
      (snd (run ema_update current_value (SymbolData ExponentialMovingAverage ''SPY'')
         (constant_prices 400 1))) 400 1))) 400 1) \<and>
   is_uptrend (snd (update ema_update current_value (snd (update ema_update current_value
      (snd (run ema_update current_value (SymbolData ExponentialMovingAverage ''SPY'')
         (constant_prices 400 1))) 400 1)) 400 1)) =
   is_uptrend (snd (update ema_update current_value
      (snd (run ema_update current_value (SymbolData ExponentialMovingAverage ''SPY'')
         (constant_prices 400 1))) 400 1)) \<and>
   scale (snd (update ema_update current_value (snd (update ema_update current_value
      (snd (run ema_update current_value (SymbolData ExponentialMovingAverage ''SPY'')
         (constant_prices 400 1))) 400 1)) 400 1)) =
   scale (snd (update ema_update current_value
      (snd (run ema_update current_value (SymbolData ExponentialMovingAverage ''SPY'')
         (constant_prices 400 1))) 400 1)) \<and>
   \<not> is_uptrend (snd (update ema_update current_value
      (snd (run ema_update current_value (SymbolData ExponentialMovingAverage ''SPY'')
         (constant_prices 400 1))) 400 (17 / 10))) \<and>
   is_uptrend (snd (update ema_update current_value (snd (update ema_update current_value
      (snd (run ema_update current_value (SymbolData ExponentialMovingAverage ''SPY'')
         (constant_prices 400 1))) 400 (17 / 10))) 400 (17 / 10))) \<and>
   current_value (snd (ema_update \<lparr>period = 100, current_value = 1, samples = 5\<rparr> 400 1)) = 1 \<and>
   current_value (snd (ema_update \<lparr>period = 100, current_value = 3, samples = 5\<rparr> 400 1)) \<noteq> 3"
proof -
  let ?s = "snd (run ema_update current_value (SymbolData ExponentialMovingAverage ''SPY'')
         (constant_prices 400 1))"
  let ?s1 = "snd (update ema_update current_value ?s 400 1)"
  let ?q1 = "snd (update ema_update current_value ?s 400 (17 / 10))"
  have h: "run ema_update current_value (SymbolData ExponentialMovingAverage ''SPY'')
         (constant_prices 400 1) = (None, ?s)"
    by (simp add: run_constant_prices)
  have h1: "fst (run ema_update current_value (SymbolData ExponentialMovingAverage ''SPY'')
         (constant_prices 400 1)) = None"
    by (simp add: run_constant_prices)
  have p: "(0::real) < 1" by simp
  have f: "current_value (fast ?s1) = 1"
    by (simp add: run_constant_prices update_fast ema_update_def Let_def)
  have l: "current_value (slow ?s1) = 1"
    by (simp add: run_constant_prices update_slow ema_update_def Let_def)
  have rf: "fst (ema_update (fast ?s1) 400 1)"
    by (simp add: run_constant_prices update_fast ema_update_def Let_def)
  have rl: "fst (ema_update (slow ?s1) 400 1)"
    by (simp add: run_constant_prices update_slow ema_update_def Let_def)
  have q1: "?q1 = \<lparr>priv_symbol = ''SPY'', tolerance = 101 / 100,
        fast = \<lparr>period = 100, current_value = 512 / 505, samples = 401\<rparr>,
        slow = \<lparr>period = 300, current_value = 216 / 215, samples = 302\<rparr>,
        is_uptrend = False, scale = 0\<rparr>"
    by (simp add: run_constant_prices update_def feed_averages_eq ema_update_def Let_def)
  have d1: "\<not> is_uptrend ?q1" unfolding q1 by simp
  have d2: "is_uptrend (snd (update ema_update current_value ?q1 400 (17 / 10)))"
    unfolding q1 by (simp add: update_is_uptrend ema_update_def Let_def)
  have a: "current_value \<lparr>period = 100, current_value = 1, samples = 5\<rparr> = (1::real)" by simp
  have b: "0 < samples \<lparr>period = 100, current_value = 3, samples = 5\<rparr> \<and>
           current_value \<lparr>period = 100, current_value = 3, samples = 5\<rparr> \<noteq> (1::real)" by simp
  have c: "current_value \<lparr>period = 100, current_value = 3, samples = 5\<rparr> = (3::real)" by simp
  show ?thesis
    using replay_at_fixed_point [OF h p f l,
        of "\<lparr>period = 100, current_value = 1, samples = 5\<rparr>"
           "\<lparr>period = 100, current_value = 3, samples = 5\<rparr>"] h1 f l rf rl d1 d2 a b c
    by metis
qed

text \<open>
  Claim C8 as stated fails in the direction "only when": after the day (0, 1), feeding
  (1, 2) twice leaves \<open>is_uptrend\<close> and \<open>scale\<close> unchanged on the second call although the
  price 2 is not the smoothed value of the fast accumulator.
\<close>

theorem replay_unchanged_off_fixed_point:
  "is_uptrend (snd (update ema_update current_value
      (snd (run ema_update current_value (SymbolData ExponentialMovingAverage ''SPY'')
         [(0, 1), (1, 2)])) 1 2)) =
   is_uptrend (snd (run ema_update current_value (SymbolData ExponentialMovingAverage ''SPY'')
         [(0, 1), (1, 2)])) \<and>
   scale (snd (update ema_update current_value
      (snd (run ema_update current_value (SymbolData ExponentialMovingAverage ''SPY'')
         [(0, 1), (1, 2)])) 1 2)) =
   scale (snd (run ema_update current_value (SymbolData ExponentialMovingAverage ''SPY'')
         [(0, 1), (1, 2)])) \<and>
   current_value (fast (snd (run ema_update current_value (SymbolData ExponentialMovingAverage ''SPY'')
         [(0, 1), (1, 2)]))) \<noteq> 2"
  by (simp add: SymbolData_def ExponentialMovingAverage_def update_def feed_averages_eq
      ema_update_def Let_def)

subsection \<open>The universe-change handler\<close>

lemma liquidate_removed_eq:
  "liquidate_removed secs calls =
     calls @ map (\<lambda>sec. Liquidate (sec_symbol sec)) (filter invested secs)"
  by (induction secs arbitrary: calls) simp_all

lemma allocate_added_eq:
  "allocate_added secs calls = calls @ map (\<lambda>sec. SetHoldings (sec_symbol sec) (1 / 10)) secs"
  by (induction secs arbitrary: calls) simp_all

text \<open>
  Claim C7: the handler asks the platform to liquidate exactly the removed securities that
  are invested, leaving the others alone, then to set the holdings of every added security
  to the fraction 0.1 of the account value, and makes no other call.
\<close>

theorem on_securities_changed_calls:
  "on_securities_changed changes =
     map (\<lambda>sec. Liquidate (sec_symbol sec)) (filter invested (removed_securities changes)) @
     map (\<lambda>sec. SetHoldings (sec_symbol sec) (1 / 10)) (added_securities changes) \<and>
   (Liquidate y \<in> set (on_securities_changed changes) \<longleftrightarrow>
      (\<exists>sec\<in>set (removed_securities changes). invested sec \<and> sec_symbol sec = y)) \<and>
   (SetHoldings y w \<in> set (on_securities_changed changes) \<longleftrightarrow>
      w = 1 / 10 \<and> (\<exists>sec\<in>set (added_securities changes). sec_symbol sec = y))"
  by (auto simp: on_securities_changed_def liquidate_removed_eq allocate_added_eq)

text \<open>
  C7 at one added security and two removed ones, of which one is invested.
\<close>

theorem on_securities_changed_calls_witness:
  "on_securities_changed
     \<lparr>added_securities = [\<lparr>sec_symbol = ''IBM'', invested = False\<rparr>],
      removed_securities = [\<lparr>sec_symbol = ''SPY'', invested = True\<rparr>,
                            \<lparr>sec_symbol = ''AAPL'', invested = False\<rparr>]\<rparr> =
   [Liquidate ''SPY'', SetHoldings ''IBM'' (1 / 10)]"
  using on_securities_changed_calls
    [of "\<lparr>added_securities = [\<lparr>sec_symbol = ''IBM'', invested = False\<rparr>],
      removed_securities = [\<lparr>sec_symbol = ''SPY'', invested = True\<rparr>,
                            \<lparr>sec_symbol = ''AAPL'', invested = False\<rparr>]\<rparr>"]
  by simp

subsection \<open>The selection function\<close>

text \<open>
  The list computed by lines 57 and 60 is the ranking the selection is meant to return: the
  instances in an uptrend, by descending scale, equal scales in their original order.
\<close>

lemma sort_reverse_Nil_iff: "sort_reverse key xs = [] \<longleftrightarrow> xs = []"
proof -
  have "length (sort_reverse key xs) = length xs" by (simp add: sort_reverse_def)
  then show ?thesis by (metis length_0_conv)
qed

lemma sort_reverse_descending:
  "sorted_wrt (\<lambda>a b. key b \<le> key a) (sort_reverse key xs)"
proof -
  have "sorted (map key (sort_key key (rev xs)))" by simp
  then have "sorted_wrt (\<lambda>a b. key a \<le> key b) (sort_key key (rev xs))"
    by (simp only: sorted_map)
  then show ?thesis by (simp add: sort_reverse_def sorted_wrt_rev)
qed

lemma sort_reverse_stable:
  "filter (\<lambda>x. key x = k) (sort_reverse key xs) = filter (\<lambda>x. key x = k) xs"
proof -
  have "filter (\<lambda>x. key x = k) (sort_key key (rev xs)) = filter (\<lambda>x. key x = k) (rev xs)"
    by (rule sort_key_stable)
  then show ?thesis by (simp add: sort_reverse_def rev_filter [symmetric])
qed

lemma mset_sort_reverse: "mset (sort_reverse key xs) = mset xs"
  by (simp add: sort_reverse_def)

lemma log_selected_Cons: "log_selected (x # xs) lg = Inl AttributeError"
  by (simp add: symbol_def)

text \<open>
  What the function returns is decided by the attribute read: with an instance in an uptrend
  and a positive count it raises, and without one it returns the empty list.
\<close>

lemma selection_raises_when_uptrend:
  assumes "update_averages upd cur mk (averages alg) coarse = (None, avs)"
    and "\<exists>x\<in>set avs. is_uptrend (snd x)"
    and "0 < coarse_count alg"
  shows "fst (coarse_selection_function upd cur mk alg coarse) = Inl AttributeError"
proof -
  let ?vals = "sort_reverse scale (filter is_uptrend (map snd avs))"
  have "filter is_uptrend (map snd avs) \<noteq> []"
    using assms(2) by (auto simp: filter_empty_conv)
  then have "?vals \<noteq> []" by (simp add: sort_reverse_Nil_iff)
  then obtain x rest where v: "?vals = x # rest" by (cases ?vals) auto
  obtain k where k: "coarse_count alg = Suc k" using assms(3) by (cases "coarse_count alg") auto
  have "take (coarse_count alg) ?vals = x # take k rest" by (simp add: v k)
  then show ?thesis
    by (simp add: coarse_selection_function_def assms(1) Let_def symbol_def)
qed

lemma selection_empty_without_uptrend:
  assumes "update_averages upd cur mk (averages alg) coarse = (None, avs)"
    and "\<forall>x\<in>set avs. \<not> is_uptrend (snd x)"
  shows "coarse_selection_function upd cur mk alg coarse = (Inr [], alg\<lparr>averages := avs\<rparr>)"
proof -
  have "filter is_uptrend (map snd avs) = []"
    using assms(2) by (auto simp: filter_empty_conv)
  then show ?thesis
    by (simp add: coarse_selection_function_def assms(1) Let_def sort_reverse_def)
qed

lemma selection_days_snoc:
  "selection_days upd cur mk alg (days @ [day]) =
     snd (coarse_selection_function upd cur mk (selection_days upd cur mk alg days) day)"
  by (induction days arbitrary: alg) simp_all

lemma quotes_snoc:
  "quotes symb (xs @ [(time, p)]) =
     quotes symb xs @ [[\<lparr>cf_symbol = symb, end_time = time, adjusted_price = p\<rparr>]]"
  by (induction symb xs rule: quotes.induct) simp_all

lemma selection_days_flat:
  assumes "0 \<le> c"
  shows "\<forall>x\<in>set xs. snd x = c \<Longrightarrow>
    selection_days ema_update current_value ExponentialMovingAverage initialize (quotes symb xs) =
      \<lparr>coarse_count = 10,
       averages = (if xs = [] then []
          else [(symb, snd (run ema_update current_value (SymbolData ExponentialMovingAverage symb) xs))]),
       logged = []\<rparr>"
proof (induction xs rule: rev_induct)
  case Nil
  then show ?case by (simp add: initialize_def)
next
  case (snoc x xs)
  obtain time where x: "x = (time, c)" using snoc.prems by (cases x) auto
  let ?i = "SymbolData ExponentialMovingAverage symb"
  let ?alg = "\<lparr>coarse_count = 10,
       averages = (if xs = [] then [] else [(symb, snd (run ema_update current_value ?i xs))]),
       logged = []\<rparr>"
  have ih: "selection_days ema_update current_value ExponentialMovingAverage initialize
      (quotes symb xs) = ?alg"
    using snoc by simp
  have all: "\<forall>y\<in>set xs. snd y = c" using snoc.prems by simp
  have r: "run ema_update current_value ?i xs = (None, snd (run ema_update current_value ?i xs))"
    using run_flat [OF assms all, of symb] by simp
  have r': "run ema_update current_value ?i (xs @ [x]) =
      (None, snd (run ema_update current_value ?i (xs @ [x])))"
    using run_flat [OF assms snoc.prems, of symb] by simp
  have n: "\<not> is_uptrend (snd (run ema_update current_value ?i (xs @ [x])))"
    using run_flat [OF assms snoc.prems, of symb] by simp
  have u: "update ema_update current_value (snd (run ema_update current_value ?i xs)) time c =
      (None, snd (run ema_update current_value ?i (xs @ [x])))"
    using r r' by (metis (no_types, lifting) x run_snoc case_prod_conv option.simps(4))
  have i0: "xs = [] \<Longrightarrow> snd (run ema_update current_value ?i xs) = ?i" by simp
  have ua: "update_averages ema_update current_value ExponentialMovingAverage (averages ?alg)
      [\<lparr>cf_symbol = symb, end_time = time, adjusted_price = c\<rparr>] =
      (None, [(symb, snd (run ema_update current_value ?i (xs @ [x])))])"
    using u i0 by (cases "xs = []") (simp_all del: run.simps)
  have "coarse_selection_function ema_update current_value ExponentialMovingAverage ?alg
      [\<lparr>cf_symbol = symb, end_time = time, adjusted_price = c\<rparr>] =
      (Inr [], ?alg\<lparr>averages := [(symb, snd (run ema_update current_value ?i (xs @ [x])))]\<rparr>)"
    using ua n by (intro selection_empty_without_uptrend) simp_all
  then show ?case
    by (simp add: x quotes_snoc selection_days_snoc ih del: run.simps)
qed

text \<open>
  Claim C6 fails on the code: after 398 daily batches quoting SPY at price 1, the batch
  quoting it at price 2 puts the instance in an uptrend, and the selection function raises
  \<^verbatim>\<open>AttributeError\<close> instead of returning the symbol.
\<close>

theorem selection_raises_attribute_error:
  "fst (coarse_selection_function ema_update current_value ExponentialMovingAverage
     (selection_days ema_update current_value ExponentialMovingAverage initialize
        (quotes ''SPY'' (constant_prices 398 1)))
     [\<lparr>cf_symbol = ''SPY'', end_time = 398, adjusted_price = 2\<rparr>]) = Inl AttributeError"
proof -
  let ?i = "SymbolData ExponentialMovingAverage ''SPY''"
  let ?s = "snd (run ema_update current_value ?i (constant_prices 398 1))"
  let ?alg = "\<lparr>coarse_count = 10, averages = [(''SPY'', ?s)], logged = []\<rparr>"
  have ne: "constant_prices 398 1 \<noteq> []"
    using length_constant_prices [of 398 1] by (metis length_0_conv zero_neq_numeral)
  have d: "selection_days ema_update current_value ExponentialMovingAverage initialize
        (quotes ''SPY'' (constant_prices 398 1)) = ?alg"
    using selection_days_flat [of 1 "constant_prices 398 1" "''SPY''"] ne
    by (simp add: snd_constant_prices)
  have u: "fst (update ema_update current_value ?s 398 2) = None \<and>
           is_uptrend (snd (update ema_update current_value ?s 398 2))"
    by (simp add: run_constant_prices update_def feed_averages_eq ema_update_def Let_def)
  have ua: "update_averages ema_update current_value ExponentialMovingAverage (averages ?alg)
      [\<lparr>cf_symbol = ''SPY'', end_time = 398, adjusted_price = 2\<rparr>] =
      (None, [(''SPY'', snd (update ema_update current_value ?s 398 2))])"
    using u by (cases "update ema_update current_value ?s 398 2") (simp del: run.simps)
  have "fst (coarse_selection_function ema_update current_value ExponentialMovingAverage ?alg
      [\<lparr>cf_symbol = ''SPY'', end_time = 398, adjusted_price = 2\<rparr>]) = Inl AttributeError"
    by (rule selection_raises_when_uptrend [OF ua]) (simp_all add: u)
  then show ?thesis unfolding d .
qed

end
